theory Spec2Isabelle
  imports Complex_Main "HOL-Library.Sublist"
begin

section \<open>The image compositor of lib/image-compositor.ts\<close>

text \<open>
  The module has one static table (\<open>TEMPLATES\<close>) and a class \<open>ImageCompositor\<close> with the
  methods \<open>downloadImage\<close>, \<open>compositeOnTemplate\<close> and \<open>getAvailableTemplates\<close>. The methods
  are asynchronous and talk to the file system (\<open>fs/promises\<close>), the network (\<open>fetch\<close>) and
  the image library (\<open>sharp\<close>). Here the file system and the network are an explicit
  environment, every \<open>await\<close> is a bind of a small exception monad that also keeps the
  list of the effects performed, and every \<open>throw\<close>/rejection is a value.
  Calls of \<open>console.log\<close>, \<open>console.warn\<close> and \<open>console.error\<close> are left out.
\<close>

subsection \<open>Interfaces\<close>

text \<open>The anonymous object type of \<open>TemplateConfig.facePosition\<close> (fields x, y, width, height).\<close>

record FacePosition =
  pos_x :: nat
  pos_y :: nat
  pos_width :: nat
  pos_height :: nat

record TemplateConfig =
  tpl_name :: string
  facePosition :: FacePosition

text \<open>\<open>templateName?: string\<close> is absent (\<open>None\<close>) or a string.\<close>

record CompositeOptions =
  aiGeneratedImageUrl :: string
  templateName :: "string option"

subsection \<open>Images, buffers and the image library\<close>

datatype format = JPEG | PNG | WEBP | GIF | AVIF | TIFF | SVG

text \<open>
  A decoded image: its dimensions and its pixel at (column, row). The pixel type is a
  parameter; the library's arithmetic on pixel values is not part of the repository.
\<close>

datatype 'px image = Image (img_width: nat) (img_height: nat) (img_pixel: "nat \<Rightarrow> nat \<Rightarrow> 'px")

text \<open>
  A \<open>Buffer\<close> is given by what the image library makes of it: bytes that decode, in some
  container format, to an image, or bytes that do not decode.
\<close>

datatype 'px buffer = Encoded format "'px image" | Undecodable

text \<open>
  The string \<open>base64Image\<close> of a result is either the empty string or the template literal
  \<^verbatim>\<open>`data:image/png;base64,${buffer.toString('base64')}`\<close>; \<open>Data_uri mime b\<close> stands
  for the string \<open>data:mime;base64,\<close> followed by the base64 text of \<open>b\<close>.
\<close>

datatype 'px payload = Empty_string | Data_uri string "'px buffer"

record 'px CompositeResult =
  base64Image :: "'px payload"
  error :: "string option"

text \<open>A thrown value: an \<open>Error\<close> object with its message, or anything else.\<close>

datatype thrown = Error string | NonError

record 'px response =
  status :: nat
  statusText :: string
  arrayBuffer :: "thrown + 'px buffer"

text \<open>\<open>Response.ok\<close>: the status is in the range 200 to 299.\<close>

definition ok :: "'px response \<Rightarrow> bool" where
  "ok r = (200 \<le> status r \<and> status r \<le> 299)"

text \<open>
  The environment of one call: the working directory, the three file system operations
  used, \<open>fetch\<close>, and the two pixel operations of the image library (the resampling
  kernel, which gives the output pixel taken at a point of the source, and the blend of
  an overlay pixel over a base pixel).
\<close>

record 'px env =
  cwd :: string
  fs_access :: "string \<Rightarrow> thrown option"
  fs_readFile :: "string \<Rightarrow> thrown + 'px buffer"
  fs_readdir :: "string \<Rightarrow> thrown + string list"
  net_fetch :: "string \<Rightarrow> thrown + 'px response"
  sample :: "'px image \<Rightarrow> rat \<Rightarrow> rat \<Rightarrow> 'px"
  blend_over :: "'px \<Rightarrow> 'px \<Rightarrow> 'px"

subsection \<open>Promises with a record of effects\<close>

datatype event =
    FsAccess string
  | FsReadFile string
  | FsReaddir string
  | Fetch string
  | ReadBody string
  | SharpResize nat nat
  | SharpComposite nat nat

type_synonym 'a io = "event list \<Rightarrow> (thrown + 'a) \<times> event list"

definition io_return :: "'a \<Rightarrow> 'a io" where
  "io_return a t = (Inr a, t)"

definition io_throw :: "thrown \<Rightarrow> 'a io" where
  "io_throw e t = (Inl e, t)"

definition io_bind :: "'a io \<Rightarrow> ('a \<Rightarrow> 'b io) \<Rightarrow> 'b io" where
  "io_bind m f t = (case m t of (Inl e, t') \<Rightarrow> (Inl e, t') | (Inr a, t') \<Rightarrow> f a t')"

definition io_catch :: "'a io \<Rightarrow> (thrown \<Rightarrow> 'a io) \<Rightarrow> 'a io" where
  "io_catch m h t = (case m t of (Inl e, t') \<Rightarrow> h e t' | (Inr a, t') \<Rightarrow> (Inr a, t'))"

definition io_effect :: "event \<Rightarrow> thrown + 'a \<Rightarrow> 'a io" where
  "io_effect ev r t = (r, t @ [ev])"

subsection \<open>JavaScript helpers\<close>

text \<open>\<open>a || d\<close> for an optional string: \<open>undefined\<close> and the empty string are falsy.\<close>

definition or_default :: "string option \<Rightarrow> string \<Rightarrow> string" where
  "or_default a d = (case a of None \<Rightarrow> d | Some s \<Rightarrow> if s = [] then d else s)"

text \<open>
  \<open>path.join\<close> on segments that need no normalisation (an absolute working directory,
  the two constant directory names and a file name without separators).
\<close>

fun path_join :: "string list \<Rightarrow> string" where
  "path_join [] = ''.''"
| "path_join [s] = s"
| "path_join (s # ss) = s @ ''/'' @ path_join ss"

definition endsWith :: "string \<Rightarrow> string \<Rightarrow> bool" where
  "endsWith s suf = suffix suf s"

text \<open>
  \<open>String.prototype.replace\<close> with a string pattern: only the first occurrence of the
  pattern is replaced (the replacement used in this module is the empty string, which
  has no special replacement patterns).
\<close>

fun js_replace :: "string \<Rightarrow> string \<Rightarrow> string \<Rightarrow> string" where
  "js_replace [] pat rep = (if pat = [] then rep else [])"
| "js_replace (c # s) pat rep =
     (if prefix pat (c # s) then rep @ drop (length pat) (c # s)
      else c # js_replace s pat rep)"

subsection \<open>The template table\<close>

definition TEMPLATES :: "(string \<times> TemplateConfig) list" where
  "TEMPLATES =
    [(''template1'',
        \<lparr>tpl_name = ''template1'',
         facePosition = \<lparr>pos_x = 300, pos_y = 150, pos_width = 400, pos_height = 400\<rparr>\<rparr>),
     (''template2'',
        \<lparr>tpl_name = ''template2'',
         facePosition = \<lparr>pos_x = 250, pos_y = 100, pos_width = 500, pos_height = 500\<rparr>\<rparr>)]"

text \<open>
  \<open>TEMPLATES\<close> is an object literal, so \<open>TEMPLATES[templateName]\<close> is a property read that
  also follows the prototype chain: a name that is not an own key but a member of
  \<open>Object.prototype\<close> reads that member (a function, or for \<open>__proto__\<close> the prototype
  object itself), and only every other name reads \<open>undefined\<close>.
\<close>

definition object_prototype_keys :: "string list" where
  "object_prototype_keys =
    [''constructor'', ''__defineGetter__'', ''__defineSetter__'', ''hasOwnProperty'',
     ''__lookupGetter__'', ''__lookupSetter__'', ''isPrototypeOf'', ''propertyIsEnumerable'',
     ''toString'', ''valueOf'', ''__proto__'', ''toLocaleString'']"

datatype property = Own TemplateConfig | Inherited | Undefined

definition TEMPLATES_get :: "string \<Rightarrow> property" where
  "TEMPLATES_get k =
    (case map_of TEMPLATES k of
       Some c \<Rightarrow> Own c
     | None \<Rightarrow> if k \<in> set object_prototype_keys then Inherited else Undefined)"

text \<open>\<open>!templateConfig\<close> is true for \<open>undefined\<close> only: objects and functions are truthy.\<close>

fun truthy :: "property \<Rightarrow> bool" where
  "truthy (Own c) = True"
| "truthy Inherited = True"
| "truthy Undefined = False"

text \<open>\<open>templateConfig.facePosition\<close>: the members of \<open>Object.prototype\<close> have no such property.\<close>

fun facePosition_of :: "property \<Rightarrow> FacePosition option" where
  "facePosition_of (Own c) = Some (facePosition c)"
| "facePosition_of Inherited = None"
| "facePosition_of Undefined = None"

subsection \<open>The calls into the image library\<close>

text \<open>
  \<open>sharp(input)\<close> decodes its input when the pipeline runs; bytes that are no image make
  the promise of \<open>toBuffer()\<close> reject.
\<close>

definition sharp_decode :: "'px buffer \<Rightarrow> thrown + (format \<times> 'px image)" where
  "sharp_decode b =
    (case b of
       Encoded fmt img \<Rightarrow> Inr (fmt, img)
     | Undecodable \<Rightarrow> Inl (Error ''Input buffer contains unsupported image format''))"

text \<open>
  The container format \<open>toBuffer()\<close> writes, as the library documents it: the one set
  by a format call of the chain (\<open>.png()\<close>); where the chain has no such call, the format
  of the input image, except that an SVG input becomes PNG.
\<close>

definition output_format :: "format option \<Rightarrow> format \<Rightarrow> format" where
  "output_format requested input =
    (case requested of
       Some f \<Rightarrow> f
     | None \<Rightarrow> if input = SVG then PNG else input)"

text \<open>
  Modelled from the spec: the scale factor of the library's resize with
  \<open>fit: 'cover'\<close> (the code of sharp is not in the repository); for a source of
  \<open>Sw \<times> Sh\<close> and a target of \<open>Tw \<times> Th\<close> it is \<open>max (Tw/Sw) (Th/Sh)\<close>.
\<close>

definition cover_scale :: "nat \<Rightarrow> nat \<Rightarrow> nat \<Rightarrow> nat \<Rightarrow> rat" where
  "cover_scale Sw Sh Tw Th = max (of_nat Tw / of_nat Sw) (of_nat Th / of_nat Sh)"

text \<open>
  Modelled from the spec: the dimensions of the source after it is scaled uniformly by
  the cover scale factor (the code of sharp is not in the repository).
\<close>

definition scaled_size :: "nat \<Rightarrow> nat \<Rightarrow> nat \<Rightarrow> nat \<Rightarrow> rat \<times> rat" where
  "scaled_size Sw Sh Tw Th =
    (of_nat Sw * cover_scale Sw Sh Tw Th, of_nat Sh * cover_scale Sw Sh Tw Th)"

text \<open>
  Modelled from the spec: the left and top offset of the crop with \<open>position: 'center'\<close>
  (the code of sharp is not in the repository); the crop of \<open>Tw \<times> Th\<close> is centred on the
  centre of the scaled image.
\<close>

definition crop_offset :: "nat \<Rightarrow> nat \<Rightarrow> nat \<Rightarrow> nat \<Rightarrow> rat \<times> rat" where
  "crop_offset Sw Sh Tw Th =
    ((fst (scaled_size Sw Sh Tw Th) - of_nat Tw) / 2,
     (snd (scaled_size Sw Sh Tw Th) - of_nat Th) / 2)"

text \<open>
  Modelled from the spec: the point of the source, in source pixel coordinates, that the
  centre of the output pixel at column \<open>i\<close> and row \<open>j\<close> is taken from (the code of sharp
  is not in the repository): the pixel centre, moved by the crop offset and scaled back.
\<close>

definition source_point :: "nat \<Rightarrow> nat \<Rightarrow> nat \<Rightarrow> nat \<Rightarrow> nat \<Rightarrow> nat \<Rightarrow> rat \<times> rat" where
  "source_point Sw Sh Tw Th i j =
    ((fst (crop_offset Sw Sh Tw Th) + of_nat i + 1 / 2) / cover_scale Sw Sh Tw Th,
     (snd (crop_offset Sw Sh Tw Th) + of_nat j + 1 / 2) / cover_scale Sw Sh Tw Th)"

text \<open>
  Modelled from the spec: the part of the source that fills the output, in source pixel
  coordinates (the code of sharp is not in the repository): its left and top edge, and
  its width and height. It is the crop of the scaled image, scaled back.
\<close>

definition source_window :: "nat \<Rightarrow> nat \<Rightarrow> nat \<Rightarrow> nat \<Rightarrow> (rat \<times> rat) \<times> (rat \<times> rat)" where
  "source_window Sw Sh Tw Th =
    ((fst (crop_offset Sw Sh Tw Th) / cover_scale Sw Sh Tw Th,
      snd (crop_offset Sw Sh Tw Th) / cover_scale Sw Sh Tw Th),
     (of_nat Tw / cover_scale Sw Sh Tw Th, of_nat Th / cover_scale Sw Sh Tw Th))"

text \<open>
  Modelled from the spec: \<open>.resize(Tw, Th, { fit: 'cover', position: 'center' })\<close> (the
  code of sharp is not in the repository). The output has exactly the target
  dimensions; each of its pixels is what the resampling kernel gives at the pixel's
  source point.
\<close>

definition sharp_resize :: "'px env \<Rightarrow> 'px image \<Rightarrow> nat \<Rightarrow> nat \<Rightarrow> 'px image" where
  "sharp_resize env img Tw Th =
    Image Tw Th
      (\<lambda>i j. sample env img
         (fst (source_point (img_width img) (img_height img) Tw Th i j))
         (snd (source_point (img_width img) (img_height img) Tw Th i j)))"

text \<open>\<open>await sharp(input).resize(w, h, { fit: 'cover', position: 'center' }).toBuffer()\<close>\<close>

definition resize_toBuffer :: "'px env \<Rightarrow> 'px buffer \<Rightarrow> nat \<Rightarrow> nat \<Rightarrow> 'px buffer io" where
  "resize_toBuffer env input w h =
    io_effect (SharpResize w h)
      (case sharp_decode input of
         Inl e \<Rightarrow> Inl e
       | Inr (fmt, img) \<Rightarrow> Inr (Encoded (output_format None fmt) (sharp_resize env img w h)))"

text \<open>
  Modelled from the spec: the image drawn by
  \<open>.composite([{ input, top, left, blend: 'over' }])\<close> (the code of sharp is not in the
  repository; the arithmetic of the blend is the parameter \<open>blend_over\<close>). The canvas keeps
  the dimensions of the base; inside the rectangle the overlay occupies, each pixel is
  the overlay's pixel blended over the base's pixel, and every other pixel is the base's.
\<close>

definition composite_over :: "'px env \<Rightarrow> 'px image \<Rightarrow> 'px image \<Rightarrow> nat \<Rightarrow> nat \<Rightarrow> 'px image" where
  "composite_over env base overlay otop oleft =
    Image (img_width base) (img_height base)
      (\<lambda>i j. if oleft \<le> i \<and> i < oleft + img_width overlay \<and> otop \<le> j \<and> j < otop + img_height overlay
             then blend_over env (img_pixel overlay (i - oleft) (j - otop)) (img_pixel base i j)
             else img_pixel base i j)"

text \<open>
  \<open>await sharp(base).composite([{ input, top, left, blend: 'over' }]).png().toBuffer()\<close>.
  Both inputs are decoded; the library rejects an overlay that is wider or taller than
  the base.
\<close>

definition composite_png_toBuffer ::
  "'px env \<Rightarrow> 'px buffer \<Rightarrow> 'px buffer \<Rightarrow> nat \<Rightarrow> nat \<Rightarrow> 'px buffer io" where
  "composite_png_toBuffer env base input otop oleft =
    io_effect (SharpComposite otop oleft)
      (case sharp_decode base of
         Inl e \<Rightarrow> Inl e
       | Inr (bfmt, bimg) \<Rightarrow>
          (case sharp_decode input of
             Inl e \<Rightarrow> Inl e
           | Inr (ofmt, oimg) \<Rightarrow>
              if img_width bimg < img_width oimg \<or> img_height bimg < img_height oimg
              then Inl (Error ''Image to composite must have same dimensions or smaller'')
              else Inr (Encoded (output_format (Some PNG) bfmt)
                          (composite_over env bimg oimg otop oleft))))"

subsection \<open>The methods of ImageCompositor\<close>

definition downloadImage :: "'px env \<Rightarrow> string \<Rightarrow> 'px buffer io" where
  "downloadImage env url =
    io_catch
      (io_bind (io_effect (Fetch url) (net_fetch env url)) (\<lambda>response.
         if \<not> ok response
         then io_throw (Error (''Failed to download image: '' @ statusText response))
         else io_effect (ReadBody url) (arrayBuffer response)))
      (\<lambda>err. io_throw err)"

text \<open>
  The path of a template's asset,
  \<open>path.join(process.cwd(), 'public', 'templates', `${templateName}.png`)\<close>.
\<close>

definition templatePath :: "'px env \<Rightarrow> string \<Rightarrow> string" where
  "templatePath env tname = path_join [cwd env, ''public'', ''templates'', tname @ ''.png'']"

text \<open>
  The message of the handler of \<open>compositeOnTemplate\<close>:
  \<open>error instanceof Error ? error.message : 'Unknown error occurred'\<close>.
\<close>

fun message_of :: "thrown \<Rightarrow> string" where
  "message_of (Error m) = m"
| "message_of NonError = ''Unknown error occurred''"

text \<open>
  The \<open>try\<close> block of \<open>compositeOnTemplate\<close>, which is the whole body of the method. The
  inner \<open>try\<close> around \<open>fs.access\<close> sets \<open>templateExists\<close>. Destructuring
  \<open>templateConfig.facePosition\<close> throws a \<open>TypeError\<close> when that property is \<open>undefined\<close>.
\<close>

definition compositeOnTemplate_try ::
  "'px env \<Rightarrow> CompositeOptions \<Rightarrow> 'px CompositeResult io" where
  "compositeOnTemplate_try env options =
      (let tname = or_default (templateName options) ''template1'';
           templateConfig = TEMPLATES_get tname
       in
         if \<not> truthy templateConfig
         then io_throw (Error (''Template '' @ tname @ '' not found''))
         else
           io_bind
             (io_catch
                (io_bind
                   (io_effect (FsAccess (templatePath env tname))
                      (case fs_access env (templatePath env tname) of
                         None \<Rightarrow> Inr () | Some e \<Rightarrow> Inl e))
                   (\<lambda>_. io_return True))
                (\<lambda>err. io_return False))
             (\<lambda>templateExists.
           io_bind (downloadImage env (aiGeneratedImageUrl options)) (\<lambda>aiImageBuffer.
             if \<not> templateExists
             then
               io_bind (resize_toBuffer env aiImageBuffer 1024 1024) (\<lambda>resizedImage.
               io_return \<lparr>base64Image = Data_uri ''image/png'' resizedImage, error = None\<rparr>)
             else
               (case facePosition_of templateConfig of
                  None \<Rightarrow>
                    io_throw (Error ''Cannot destructure property x of templateConfig.facePosition as it is undefined.'')
                | Some fp \<Rightarrow>
                    io_bind (resize_toBuffer env aiImageBuffer (pos_width fp) (pos_height fp))
                      (\<lambda>resizedFace.
                    io_bind (io_effect (FsReadFile (templatePath env tname))
                               (fs_readFile env (templatePath env tname)))
                      (\<lambda>templateBuffer.
                    io_bind (composite_png_toBuffer env templateBuffer resizedFace
                               (pos_y fp) (pos_x fp))
                      (\<lambda>compositedImage.
                    io_return
                      \<lparr>base64Image = Data_uri ''image/png'' compositedImage,
                       error = None\<rparr>)))))))"

text \<open>
  \<open>compositeOnTemplate\<close>: the \<open>try\<close> block with its \<open>catch\<close> handler, which returns
  \<open>{ base64Image: '', error: ... }\<close>.
\<close>

definition compositeOnTemplate :: "'px env \<Rightarrow> CompositeOptions \<Rightarrow> 'px CompositeResult io" where
  "compositeOnTemplate env options =
    io_catch
      (compositeOnTemplate_try env options)
      (\<lambda>err. io_return \<lparr>base64Image = Empty_string, error = Some (message_of err)\<rparr>)"

text \<open>
  \<open>getAvailableTemplates\<close>: the entries of the templates directory that end in \<open>.png\<close>,
  each with \<open>file.replace('.png', '')\<close> applied; the empty list when \<open>readdir\<close> rejects.
\<close>

definition getAvailableTemplates :: "'px env \<Rightarrow> string list io" where
  "getAvailableTemplates env =
    (let templatesDir = path_join [cwd env, ''public'', ''templates''] in
     io_catch
       (io_bind (io_effect (FsReaddir templatesDir) (fs_readdir env templatesDir)) (\<lambda>files.
          io_return
            (map (\<lambda>file. js_replace file ''.png'' [])
               (filter (\<lambda>file. endsWith file ''.png'') files))))
       (\<lambda>err. io_return []))"

text \<open>
  The caller in app/api/personalize/route.ts passes
  \<open>templateName: templateName || 'template1'\<close>, where the form field is a string or
  \<open>null\<close>.
\<close>

definition route_options :: "string \<Rightarrow> string option \<Rightarrow> CompositeOptions" where
  "route_options imageUrl field =
    \<lparr>aiGeneratedImageUrl = imageUrl, templateName = Some (or_default field ''template1'')\<rparr>"

subsection \<open>Example environments\<close>

text \<open>
  Concrete environments for the examples below. Pixels are natural numbers, the
  resampling kernel takes the nearest source pixel, and the blend of an opaque overlay
  pixel over a base pixel is the overlay pixel.
\<close>

definition nearest :: "nat image \<Rightarrow> rat \<Rightarrow> rat \<Rightarrow> nat" where
  "nearest img sx sy = img_pixel img (nat \<lfloor>sx\<rfloor>) (nat \<lfloor>sy\<rfloor>)"

definition flat :: "nat \<Rightarrow> nat \<Rightarrow> nat \<Rightarrow> nat image" where
  "flat w h c = Image w h (\<lambda>i j. c)"

definition ok_response :: "nat buffer \<Rightarrow> nat response" where
  "ok_response b = \<lparr>status = 200, statusText = ''OK'', arrayBuffer = Inr b\<rparr>"

text \<open>No templates directory, and no network.\<close>

definition bare_env :: "nat env" where
  "bare_env =
    \<lparr>cwd = ''/app'',
     fs_access = (\<lambda>p. Some (Error ''ENOENT: no such file or directory'')),
     fs_readFile = (\<lambda>p. Inl (Error ''ENOENT: no such file or directory'')),
     fs_readdir = (\<lambda>p. Inl (Error ''ENOENT: no such file or directory'')),
     net_fetch = (\<lambda>u. Inl (Error ''fetch failed'')),
     sample = nearest,
     blend_over = (\<lambda>s d. s)\<rparr>"

text \<open>No template asset; every URL serves the given bytes.\<close>

definition serving_env :: "nat buffer \<Rightarrow> nat env" where
  "serving_env b = bare_env\<lparr>net_fetch := (\<lambda>u. Inr (ok_response b))\<rparr>"

text \<open>No template asset; every URL answers 404.\<close>

definition not_found_env :: "nat env" where
  "not_found_env =
    bare_env\<lparr>net_fetch :=
      (\<lambda>u. Inr \<lparr>status = 404, statusText = ''Not Found'', arrayBuffer = Inr Undecodable\<rparr>)\<rparr>"

text \<open>The existence check fails for a reason other than a missing file.\<close>

definition denied_access_env :: "nat buffer \<Rightarrow> nat env" where
  "denied_access_env b =
    (serving_env b)\<lparr>fs_access := (\<lambda>p. Some (Error ''EACCES: permission denied''))\<rparr>"

text \<open>The asset exists, but reading it fails.\<close>

definition unreadable_asset_env :: "nat buffer \<Rightarrow> nat env" where
  "unreadable_asset_env b =
    (serving_env b)\<lparr>fs_access := (\<lambda>p. None),
                    fs_readFile := (\<lambda>p. Inl (Error ''EACCES: permission denied''))\<rparr>"

text \<open>Every template asset is the PNG of the first image; every URL serves the second.\<close>

definition present_asset_env :: "nat image \<Rightarrow> nat buffer \<Rightarrow> nat env" where
  "present_asset_env tpl b =
    (serving_env b)\<lparr>fs_access := (\<lambda>p. None),
                    fs_readFile := (\<lambda>p. Inr (Encoded PNG tpl))\<rparr>"

text \<open>No template asset; \<open>fetch\<close> rejects with an \<open>Error\<close> whose message is empty.\<close>

definition silent_rejection_env :: "nat env" where
  "silent_rejection_env = bare_env\<lparr>net_fetch := (\<lambda>u. Inl (Error []))\<rparr>"

text \<open>A templates directory with three entries.\<close>

definition listing_env :: "nat env" where
  "listing_env =
    bare_env\<lparr>fs_readdir :=
      (\<lambda>p. Inr [''template1.png'', ''README.md'', ''forest.png.old.png''])\<rparr>"

definition request :: "string option \<Rightarrow> CompositeOptions" where
  "request t = \<lparr>aiGeneratedImageUrl = ''https://replicate.delivery/out'', templateName = t\<rparr>"

section \<open>Properties\<close>

lemmas io_defs = io_return_def io_throw_def io_bind_def io_catch_def io_effect_def

lemmas example_defs =
  request_def bare_env_def serving_env_def not_found_env_def denied_access_env_def
  unreadable_asset_env_def present_asset_env_def listing_env_def ok_response_def
  silent_rejection_env_def

lemmas compositor_defs =
  compositeOnTemplate_def compositeOnTemplate_try_def downloadImage_def resize_toBuffer_def composite_png_toBuffer_def
  sharp_decode_def output_format_def templatePath_def or_default_def ok_def
  TEMPLATES_get_def TEMPLATES_def object_prototype_keys_def Let_def

subsection \<open>The steps of compositeOnTemplate\<close>

lemma downloadImage_network_error:
  "net_fetch env url = Inl e \<Longrightarrow> downloadImage env url t = (Inl e, t @ [Fetch url])"
  by (simp add: downloadImage_def io_defs)

lemma downloadImage_not_ok:
  "net_fetch env url = Inr r \<Longrightarrow> \<not> ok r \<Longrightarrow>
   downloadImage env url t =
     (Inl (Error (''Failed to download image: '' @ statusText r)), t @ [Fetch url])"
  by (simp add: downloadImage_def io_defs)

lemma downloadImage_ok:
  "net_fetch env url = Inr r \<Longrightarrow> ok r \<Longrightarrow>
   downloadImage env url t = (arrayBuffer r, t @ [Fetch url, ReadBody url])"
  by (cases "arrayBuffer r") (simp_all add: downloadImage_def io_defs)

lemma truthy_lookup:
  "truthy (TEMPLATES_get k) \<longleftrightarrow>
     k = ''template1'' \<or> k = ''template2'' \<or> k \<in> set object_prototype_keys"
  by (simp add: TEMPLATES_get_def TEMPLATES_def)

lemma composite_unknown:
  "\<not> truthy (TEMPLATES_get (or_default (templateName options) ''template1'')) \<Longrightarrow>
   compositeOnTemplate env options t =
     (Inr \<lparr>base64Image = Empty_string,
           error = Some (''Template '' @ or_default (templateName options) ''template1''
                          @ '' not found'')\<rparr>, t)"
  by (simp add: compositeOnTemplate_def compositeOnTemplate_try_def io_defs Let_def)

lemma composite_download_failed:
  assumes "truthy (TEMPLATES_get (or_default (templateName options) ''template1''))"
    and "downloadImage env (aiGeneratedImageUrl options)
           (t @ [FsAccess (templatePath env (or_default (templateName options) ''template1''))])
         = (Inl e, tr)"
  shows "compositeOnTemplate env options t =
     (Inr \<lparr>base64Image = Empty_string, error = Some (message_of e)\<rparr>, tr)"
  using assms
  by (simp add: compositeOnTemplate_def compositeOnTemplate_try_def io_defs Let_def split: option.splits)

lemma composite_fallback:
  assumes "truthy (TEMPLATES_get (or_default (templateName options) ''template1''))"
    and "fs_access env (templatePath env (or_default (templateName options) ''template1'')) = Some e"
    and "downloadImage env (aiGeneratedImageUrl options)
           (t @ [FsAccess (templatePath env (or_default (templateName options) ''template1''))])
         = (Inr buf, tr)"
  shows "compositeOnTemplate env options t =
     (case sharp_decode buf of
        Inl e' \<Rightarrow> (Inr \<lparr>base64Image = Empty_string, error = Some (message_of e')\<rparr>,
                   tr @ [SharpResize 1024 1024])
      | Inr (fmt, img) \<Rightarrow>
          (Inr \<lparr>base64Image = Data_uri ''image/png''
                   (Encoded (output_format None fmt) (sharp_resize env img 1024 1024)),
                error = None\<rparr>, tr @ [SharpResize 1024 1024]))"
  using assms
  by (simp add: compositeOnTemplate_def compositeOnTemplate_try_def resize_toBuffer_def io_defs Let_def
      split: option.splits sum.splits prod.splits)

subsection \<open>Download failures\<close>

text \<open>
  C6. Whenever \<open>compositeOnTemplate\<close> performs the fetch of the source image and the
  fetch yields a network error or a response that is not ok, the result is a failure
  (empty payload) whose message is the message of the fetch failure, and the effects of
  the call are exactly the existence check and that one fetch: there is no second
  fetch, and no resize, asset read or composite after it.
\<close>

theorem download_failure_propagation:
  assumes run: "compositeOnTemplate env options [] = (res, tr)"
    and performed: "Fetch (aiGeneratedImageUrl options) \<in> set tr"
    and failed: "net_fetch env (aiGeneratedImageUrl options) = Inl e \<or>
       (\<exists>r. net_fetch env (aiGeneratedImageUrl options) = Inr r \<and> \<not> ok r \<and>
            e = Error (''Failed to download image: '' @ statusText r))"
  shows "res = Inr \<lparr>base64Image = Empty_string, error = Some (message_of e)\<rparr> \<and>
         tr = [FsAccess (templatePath env (or_default (templateName options) ''template1'')),
               Fetch (aiGeneratedImageUrl options)]"
proof -
  let ?name = "or_default (templateName options) ''template1''"
  have known: "truthy (TEMPLATES_get ?name)"
  proof (rule ccontr)
    assume "\<not> truthy (TEMPLATES_get ?name)"
    from composite_unknown [OF this, of env "[]"] run have "tr = []" by simp
    with performed show False by simp
  qed
  from failed have
    "downloadImage env (aiGeneratedImageUrl options) ([] @ [FsAccess (templatePath env ?name)])
      = (Inl e, [FsAccess (templatePath env ?name), Fetch (aiGeneratedImageUrl options)])"
    by (auto simp: downloadImage_network_error downloadImage_not_ok)
  from composite_download_failed [OF known this] run show ?thesis by simp
qed

theorem download_failure_propagation_witness:
  "compositeOnTemplate not_found_env (request (Some ''template2'')) [] =
     (Inr \<lparr>base64Image = Empty_string, error = Some ''Failed to download image: Not Found''\<rparr>,
      [FsAccess ''/app/public/templates/template2.png'', Fetch ''https://replicate.delivery/out''])"
proof -
  have run: "compositeOnTemplate not_found_env (request (Some ''template2'')) [] =
      (fst (compositeOnTemplate not_found_env (request (Some ''template2'')) []),
       snd (compositeOnTemplate not_found_env (request (Some ''template2'')) []))"
    by simp
  have performed: "Fetch (aiGeneratedImageUrl (request (Some ''template2''))) \<in>
      set (snd (compositeOnTemplate not_found_env (request (Some ''template2'')) []))"
    by (simp add: compositor_defs io_defs example_defs)
  have failed: "net_fetch not_found_env (aiGeneratedImageUrl (request (Some ''template2''))) =
        Inl (Error ''Failed to download image: Not Found'') \<or>
      (\<exists>r. net_fetch not_found_env (aiGeneratedImageUrl (request (Some ''template2''))) = Inr r \<and>
           \<not> ok r \<and>
           Error ''Failed to download image: Not Found'' =
             Error (''Failed to download image: '' @ statusText r))"
    by (simp add: example_defs ok_def)
  from download_failure_propagation [OF run performed failed]
  have "fst (compositeOnTemplate not_found_env (request (Some ''template2'')) []) =
      Inr \<lparr>base64Image = Empty_string, error = Some ''Failed to download image: Not Found''\<rparr> \<and>
    snd (compositeOnTemplate not_found_env (request (Some ''template2'')) []) =
      [FsAccess ''/app/public/templates/template2.png'', Fetch ''https://replicate.delivery/out'']"
    by (simp add: templatePath_def or_default_def example_defs)
  then show ?thesis by (simp add: prod_eq_iff)
qed

subsection \<open>The default template\<close>

text \<open>
  C8. For every source URL, \<open>compositeOnTemplate\<close> with \<open>templateName\<close> absent and with
  \<open>templateName\<close> the empty string each behave exactly as with \<open>templateName\<close>
  \<open>template1\<close>; the same holds for the options the route builds from an absent or
  empty form field.
\<close>

theorem default_template_equivalence:
  "compositeOnTemplate env \<lparr>aiGeneratedImageUrl = url, templateName = None\<rparr> =
     compositeOnTemplate env \<lparr>aiGeneratedImageUrl = url, templateName = Some ''template1''\<rparr> \<and>
   compositeOnTemplate env \<lparr>aiGeneratedImageUrl = url, templateName = Some []\<rparr> =
     compositeOnTemplate env \<lparr>aiGeneratedImageUrl = url, templateName = Some ''template1''\<rparr> \<and>
   route_options url None = \<lparr>aiGeneratedImageUrl = url, templateName = Some ''template1''\<rparr> \<and>
   route_options url (Some []) = \<lparr>aiGeneratedImageUrl = url, templateName = Some ''template1''\<rparr>"
  by (simp add: compositeOnTemplate_def compositeOnTemplate_try_def or_default_def route_options_def Let_def)

subsection \<open>Failures of the template's asset\<close>

text \<open>
  C2, as the claim states it, fails: with a Registry entry, an asset that passes the
  existence check but cannot be read, and a good source image, \<open>compositeOnTemplate\<close>
  does not fall back. The error of \<open>fs.readFile\<close> reaches the handler of the outer
  \<open>try\<close> and becomes a failure result carrying its message.
\<close>

theorem asset_read_failure_is_reported:
  "compositeOnTemplate (unreadable_asset_env (Encoded PNG (flat 512 512 9)))
      (request (Some ''template1'')) [] =
     (Inr \<lparr>base64Image = Empty_string, error = Some ''EACCES: permission denied''\<rparr>,
      [FsAccess ''/app/public/templates/template1.png'',
       Fetch ''https://replicate.delivery/out'',
       ReadBody ''https://replicate.delivery/out'',
       SharpResize 400 400,
       FsReadFile ''/app/public/templates/template1.png''])"
  by (simp add: compositor_defs io_defs example_defs)

text \<open>
  C2, amended. For every request whose template name has a Registry entry, any failure
  of the existence check of the asset (\<open>fs.access\<close> rejecting with any value, not only
  for a missing file) makes \<open>compositeOnTemplate\<close> take the fallback path: when the source
  image downloads and decodes, the result is a success carrying the source resized to
  1024 by 1024, the asset is never read, and the value the check rejected with appears
  nowhere in the result.
\<close>

theorem existence_check_failure_takes_fallback:
  assumes entry: "TEMPLATES_get (or_default (templateName options) ''template1'') = Own c"
    and check: "fs_access env (templatePath env (or_default (templateName options) ''template1''))
        = Some e"
    and fetched: "net_fetch env (aiGeneratedImageUrl options) = Inr r" "ok r"
    and body: "arrayBuffer r = Inr (Encoded fmt img)"
  shows "compositeOnTemplate env options [] =
     (Inr \<lparr>base64Image = Data_uri ''image/png''
              (Encoded (output_format None fmt) (sharp_resize env img 1024 1024)),
           error = None\<rparr>,
      [FsAccess (templatePath env (or_default (templateName options) ''template1'')),
       Fetch (aiGeneratedImageUrl options), ReadBody (aiGeneratedImageUrl options),
       SharpResize 1024 1024])"
proof -
  let ?p = "templatePath env (or_default (templateName options) ''template1'')"
  from entry have known: "truthy (TEMPLATES_get (or_default (templateName options) ''template1''))"
    by simp
  from fetched body have
    "downloadImage env (aiGeneratedImageUrl options) ([] @ [FsAccess ?p]) =
       (Inr (Encoded fmt img),
        [FsAccess ?p, Fetch (aiGeneratedImageUrl options), ReadBody (aiGeneratedImageUrl options)])"
    by (simp add: downloadImage_ok)
  from composite_fallback [OF known check this] show ?thesis
    by (simp add: sharp_decode_def)
qed

theorem existence_check_failure_takes_fallback_witness:
  "fs_access (denied_access_env (Encoded PNG (flat 512 512 9)))
      ''/app/public/templates/template1.png'' = Some (Error ''EACCES: permission denied'') \<and>
   compositeOnTemplate (denied_access_env (Encoded PNG (flat 512 512 9)))
      (request (Some ''template1'')) [] =
     (Inr \<lparr>base64Image = Data_uri ''image/png''
              (Encoded PNG (sharp_resize (denied_access_env (Encoded PNG (flat 512 512 9)))
                 (flat 512 512 9) 1024 1024)),
           error = None\<rparr>,
      [FsAccess ''/app/public/templates/template1.png'',
       Fetch ''https://replicate.delivery/out'', ReadBody ''https://replicate.delivery/out'',
       SharpResize 1024 1024])"
proof -
  let ?env = "denied_access_env (Encoded PNG (flat 512 512 9))"
  let ?c = "\<lparr>tpl_name = ''template1'',
         facePosition = \<lparr>pos_x = 300, pos_y = 150, pos_width = 400, pos_height = 400\<rparr>\<rparr>"
  have entry: "TEMPLATES_get (or_default (templateName (request (Some ''template1''))) ''template1'')
      = Own ?c"
    by (simp add: request_def or_default_def TEMPLATES_get_def TEMPLATES_def)
  have check: "fs_access ?env
      (templatePath ?env (or_default (templateName (request (Some ''template1''))) ''template1''))
      = Some (Error ''EACCES: permission denied'')"
    by (simp add: example_defs)
  have fetched: "net_fetch ?env (aiGeneratedImageUrl (request (Some ''template1''))) =
      Inr (ok_response (Encoded PNG (flat 512 512 9)))"
    by (simp add: example_defs)
  have isok: "ok (ok_response (Encoded PNG (flat 512 512 9)))"
    by (simp add: ok_def ok_response_def)
  have body: "arrayBuffer (ok_response (Encoded PNG (flat 512 512 9))) =
      Inr (Encoded PNG (flat 512 512 9))"
    by (simp add: ok_response_def)
  from existence_check_failure_takes_fallback [OF entry check fetched isok body]
  show ?thesis
    by (simp add: templatePath_def or_default_def output_format_def request_def
        denied_access_env_def serving_env_def bare_env_def)
qed

subsection \<open>The composite path\<close>

lemma composite_present:
  assumes "truthy (TEMPLATES_get (or_default (templateName options) ''template1''))"
    and "fs_access env (templatePath env (or_default (templateName options) ''template1'')) = None"
    and "downloadImage env (aiGeneratedImageUrl options)
           (t @ [FsAccess (templatePath env (or_default (templateName options) ''template1''))])
         = (Inr b, tr)"
  shows "compositeOnTemplate env options t =
    io_catch
      (case facePosition_of (TEMPLATES_get (or_default (templateName options) ''template1'')) of
         None \<Rightarrow>
           io_throw (Error ''Cannot destructure property x of templateConfig.facePosition as it is undefined.'')
       | Some fp \<Rightarrow>
           io_bind (resize_toBuffer env b (pos_width fp) (pos_height fp)) (\<lambda>resizedFace.
           io_bind (io_effect
                      (FsReadFile (templatePath env (or_default (templateName options) ''template1'')))
                      (fs_readFile env (templatePath env (or_default (templateName options) ''template1''))))
             (\<lambda>templateBuffer.
           io_bind (composite_png_toBuffer env templateBuffer resizedFace (pos_y fp) (pos_x fp))
             (\<lambda>compositedImage.
           io_return \<lparr>base64Image = Data_uri ''image/png'' compositedImage, error = None\<rparr>))))
      (\<lambda>err. io_return \<lparr>base64Image = Empty_string, error = Some (message_of err)\<rparr>) tr"
  using assms
  by (simp add: compositeOnTemplate_def compositeOnTemplate_try_def io_defs Let_def)

lemma composite_overlay:
  assumes "TEMPLATES_get (or_default (templateName options) ''template1'') = Own c"
    and "fs_access env (templatePath env (or_default (templateName options) ''template1'')) = None"
    and "downloadImage env (aiGeneratedImageUrl options)
           (t @ [FsAccess (templatePath env (or_default (templateName options) ''template1''))])
         = (Inr (Encoded fmt src), tr)"
    and "fs_readFile env (templatePath env (or_default (templateName options) ''template1''))
         = Inr (Encoded tfmt tpl)"
    and "pos_width (facePosition c) \<le> img_width tpl"
    and "pos_height (facePosition c) \<le> img_height tpl"
  shows "compositeOnTemplate env options t =
     (Inr \<lparr>base64Image = Data_uri ''image/png''
              (Encoded PNG
                 (composite_over env tpl
                    (sharp_resize env src (pos_width (facePosition c)) (pos_height (facePosition c)))
                    (pos_y (facePosition c)) (pos_x (facePosition c)))),
           error = None\<rparr>,
      tr @ [SharpResize (pos_width (facePosition c)) (pos_height (facePosition c)),
            FsReadFile (templatePath env (or_default (templateName options) ''template1'')),
            SharpComposite (pos_y (facePosition c)) (pos_x (facePosition c))])"
  using assms
  by (simp add: compositeOnTemplate_def compositeOnTemplate_try_def resize_toBuffer_def composite_png_toBuffer_def
      sharp_decode_def output_format_def sharp_resize_def io_defs Let_def)

text \<open>
  C4, as the claim states it, fails in its part on the inside of the rectangle: when the
  resized face has, at every pixel, the colour the template has there, the composited
  image is the template itself, inside the face rectangle too.
\<close>

theorem same_colour_face_leaves_template_unchanged:
  "fs_readFile (present_asset_env (flat 1024 1024 7) (Encoded PNG (flat 512 512 7)))
      ''/app/public/templates/template1.png'' = Inr (Encoded PNG (flat 1024 1024 7)) \<and>
   compositeOnTemplate (present_asset_env (flat 1024 1024 7) (Encoded PNG (flat 512 512 7)))
      (request (Some ''template1'')) [] =
     (Inr \<lparr>base64Image = Data_uri ''image/png'' (Encoded PNG (flat 1024 1024 7)), error = None\<rparr>,
      [FsAccess ''/app/public/templates/template1.png'',
       Fetch ''https://replicate.delivery/out'',
       ReadBody ''https://replicate.delivery/out'',
       SharpResize 400 400,
       FsReadFile ''/app/public/templates/template1.png'',
       SharpComposite 150 300])"
  by (simp add: compositor_defs io_defs example_defs flat_def nearest_def sharp_resize_def
      composite_over_def cong: if_cong)

text \<open>
  C4, amended. When the template has a Registry entry, its asset is present and decodes
  to an image at least as large as the face slot, and the source image downloads and
  decodes, the result is a success whose payload is PNG-encoded and decodes to an image
  of exactly the template's dimensions; every pixel outside the rectangle with top-left
  corner (x, y) and size width by height is the template's pixel, and every pixel inside
  it is the pixel of the resized face blended over the template's pixel (so it differs
  from the template only where that blend changes the pixel).
\<close>

theorem composite_frame:
  assumes entry: "TEMPLATES_get (or_default (templateName options) ''template1'') = Own c"
    and present: "fs_access env (templatePath env (or_default (templateName options) ''template1''))
        = None"
    and fetched: "net_fetch env (aiGeneratedImageUrl options) = Inr r" "ok r"
    and body: "arrayBuffer r = Inr (Encoded fmt src)"
    and asset: "fs_readFile env (templatePath env (or_default (templateName options) ''template1''))
         = Inr (Encoded tfmt tpl)"
    and fits: "pos_width (facePosition c) \<le> img_width tpl"
              "pos_height (facePosition c) \<le> img_height tpl"
    and face: "face = sharp_resize env src (pos_width (facePosition c)) (pos_height (facePosition c))"
  shows "\<exists>out. fst (compositeOnTemplate env options []) =
            Inr \<lparr>base64Image = Data_uri ''image/png'' (Encoded PNG out), error = None\<rparr> \<and>
          img_width out = img_width tpl \<and> img_height out = img_height tpl \<and>
          (\<forall>i j. img_pixel out i j =
             (if pos_x (facePosition c) \<le> i \<and>
                 i < pos_x (facePosition c) + pos_width (facePosition c) \<and>
                 pos_y (facePosition c) \<le> j \<and>
                 j < pos_y (facePosition c) + pos_height (facePosition c)
              then blend_over env
                     (img_pixel face (i - pos_x (facePosition c)) (j - pos_y (facePosition c)))
                     (img_pixel tpl i j)
              else img_pixel tpl i j))"
proof -
  let ?p = "templatePath env (or_default (templateName options) ''template1'')"
  from fetched body have
    "downloadImage env (aiGeneratedImageUrl options) ([] @ [FsAccess ?p]) =
       (Inr (Encoded fmt src),
        [FsAccess ?p, Fetch (aiGeneratedImageUrl options), ReadBody (aiGeneratedImageUrl options)])"
    by (simp add: downloadImage_ok)
  from composite_overlay [OF entry present this asset fits] face
  show ?thesis
    by (simp add: composite_over_def sharp_resize_def)
qed

theorem composite_frame_witness:
  "\<exists>out. fst (compositeOnTemplate (present_asset_env (flat 1024 1024 0) (Encoded JPEG (flat 512 512 9)))
              (request (Some ''template1'')) []) =
            Inr \<lparr>base64Image = Data_uri ''image/png'' (Encoded PNG out), error = None\<rparr> \<and>
         img_width out = 1024 \<and> img_height out = 1024 \<and>
         img_pixel out 300 150 = 9 \<and> img_pixel out 699 549 = 9 \<and>
         img_pixel out 299 150 = 0 \<and> img_pixel out 300 149 = 0 \<and>
         img_pixel out 700 549 = 0 \<and> img_pixel out 699 550 = 0"
proof -
  let ?env = "present_asset_env (flat 1024 1024 0) (Encoded JPEG (flat 512 512 9))"
  let ?c = "\<lparr>tpl_name = ''template1'',
         facePosition = \<lparr>pos_x = 300, pos_y = 150, pos_width = 400, pos_height = 400\<rparr>\<rparr>"
  let ?name = "or_default (templateName (request (Some ''template1''))) ''template1''"
  have entry: "TEMPLATES_get ?name = Own ?c"
    by (simp add: request_def or_default_def TEMPLATES_get_def TEMPLATES_def)
  have present: "fs_access ?env (templatePath ?env ?name) = None"
    by (simp add: example_defs)
  have fetched: "net_fetch ?env (aiGeneratedImageUrl (request (Some ''template1''))) =
      Inr (ok_response (Encoded JPEG (flat 512 512 9)))"
    by (simp add: example_defs)
  have isok: "ok (ok_response (Encoded JPEG (flat 512 512 9)))"
    by (simp add: ok_def ok_response_def)
  have body: "arrayBuffer (ok_response (Encoded JPEG (flat 512 512 9))) =
      Inr (Encoded JPEG (flat 512 512 9))"
    by (simp add: ok_response_def)
  have asset: "fs_readFile ?env (templatePath ?env ?name) = Inr (Encoded PNG (flat 1024 1024 0))"
    by (simp add: example_defs)
  have fits: "pos_width (facePosition ?c) \<le> img_width (flat 1024 1024 0)"
    "pos_height (facePosition ?c) \<le> img_height (flat 1024 1024 0)"
    by (simp_all add: flat_def)
  from composite_frame [OF entry present fetched isok body asset fits refl]
  obtain out where out:
    "fst (compositeOnTemplate ?env (request (Some ''template1'')) []) =
            Inr \<lparr>base64Image = Data_uri ''image/png'' (Encoded PNG out), error = None\<rparr>"
    "img_width out = img_width (flat 1024 1024 0)" "img_height out = img_height (flat 1024 1024 0)"
    and px: "\<And>i j. img_pixel out i j =
             (if pos_x (facePosition ?c) \<le> i \<and>
                 i < pos_x (facePosition ?c) + pos_width (facePosition ?c) \<and>
                 pos_y (facePosition ?c) \<le> j \<and>
                 j < pos_y (facePosition ?c) + pos_height (facePosition ?c)
              then blend_over ?env
                     (img_pixel (sharp_resize ?env (flat 512 512 9) (pos_width (facePosition ?c))
                        (pos_height (facePosition ?c)))
                        (i - pos_x (facePosition ?c)) (j - pos_y (facePosition ?c)))
                     (img_pixel (flat 1024 1024 0) i j)
              else img_pixel (flat 1024 1024 0) i j)"
    by blast
  have "img_pixel out 300 150 = 9" "img_pixel out 699 549 = 9"
    "img_pixel out 299 150 = 0" "img_pixel out 300 149 = 0"
    "img_pixel out 700 549 = 0" "img_pixel out 699 550 = 0"
    by (simp_all add: px example_defs flat_def nearest_def sharp_resize_def)
  with out show ?thesis by (simp add: flat_def)
qed

subsection \<open>The resize\<close>

lemma cover_scale_pos:
  assumes "0 < Sw" "0 < Sh" "0 < Tw" "0 < Th"
  shows "0 < cover_scale Sw Sh Tw Th"
  using assms by (simp add: cover_scale_def less_max_iff_disj)

lemma scaled_size_covers:
  assumes "0 < Sw" "0 < Sh"
  shows "of_nat Tw \<le> fst (scaled_size Sw Sh Tw Th)" "of_nat Th \<le> snd (scaled_size Sw Sh Tw Th)"
proof -
  have "of_nat Sw * (of_nat Tw / of_nat Sw) \<le> of_nat Sw * cover_scale Sw Sh Tw Th"
    unfolding cover_scale_def by (intro mult_left_mono) simp_all
  with assms show "of_nat Tw \<le> fst (scaled_size Sw Sh Tw Th)"
    by (simp add: scaled_size_def)
  have "of_nat Sh * (of_nat Th / of_nat Sh) \<le> of_nat Sh * cover_scale Sw Sh Tw Th"
    unfolding cover_scale_def by (intro mult_left_mono) simp_all
  with assms show "of_nat Th \<le> snd (scaled_size Sw Sh Tw Th)"
    by (simp add: scaled_size_def)
qed

lemma scaled_size_tight:
  assumes "0 < Sw" "0 < Sh"
  shows "fst (scaled_size Sw Sh Tw Th) = of_nat Tw \<or> snd (scaled_size Sw Sh Tw Th) = of_nat Th"
  using assms by (auto simp: scaled_size_def cover_scale_def max_def)

lemma source_point_inside:
  assumes pos: "0 < Sw" "0 < Sh" "0 < Tw" "0 < Th" and i: "i < Tw" and j: "j < Th"
  shows "0 < fst (source_point Sw Sh Tw Th i j)" "fst (source_point Sw Sh Tw Th i j) < of_nat Sw"
    "0 < snd (source_point Sw Sh Tw Th i j)" "snd (source_point Sw Sh Tw Th i j) < of_nat Sh"
proof -
  let ?s = "cover_scale Sw Sh Tw Th"
  have s: "0 < ?s" using pos by (rule cover_scale_pos)
  have cl: "0 \<le> fst (crop_offset Sw Sh Tw Th)" and ct: "0 \<le> snd (crop_offset Sw Sh Tw Th)"
    using scaled_size_covers(1) [OF pos(1,2)] scaled_size_covers(2) [OF pos(1,2)]
    by (simp_all add: crop_offset_def)
  have i': "(of_nat i :: rat) + 1 \<le> of_nat Tw" using i
    by (metis Suc_leI of_nat_Suc of_nat_le_iff add.commute)
  have j': "(of_nat j :: rat) + 1 \<le> of_nat Th" using j
    by (metis Suc_leI of_nat_Suc of_nat_le_iff add.commute)
  show "0 < fst (source_point Sw Sh Tw Th i j)"
    using s cl by (simp add: source_point_def zero_less_divide_iff add_nonneg_pos)
  show "0 < snd (source_point Sw Sh Tw Th i j)"
    using s ct by (simp add: source_point_def zero_less_divide_iff add_nonneg_pos)
  have "fst (crop_offset Sw Sh Tw Th) + of_nat i + 1 / 2 < of_nat Sw * ?s"
    using i' cl by (simp add: crop_offset_def scaled_size_def field_simps)
  then show "fst (source_point Sw Sh Tw Th i j) < of_nat Sw"
    using s by (simp add: source_point_def pos_divide_less_eq)
  have "snd (crop_offset Sw Sh Tw Th) + of_nat j + 1 / 2 < of_nat Sh * ?s"
    using j' ct by (simp add: crop_offset_def scaled_size_def field_simps)
  then show "snd (source_point Sw Sh Tw Th i j) < of_nat Sh"
    using s by (simp add: source_point_def pos_divide_less_eq)
qed

lemma source_point_mirror:
  assumes pos: "0 < Sw" "0 < Sh" "0 < Tw" "0 < Th" and i: "i < Tw" and j: "j < Th"
  shows "fst (source_point Sw Sh Tw Th i j) + fst (source_point Sw Sh Tw Th (Tw - 1 - i) j) = of_nat Sw"
    "snd (source_point Sw Sh Tw Th i j) + snd (source_point Sw Sh Tw Th i (Th - 1 - j)) = of_nat Sh"
proof -
  let ?s = "cover_scale Sw Sh Tw Th"
  have s: "?s \<noteq> 0" using cover_scale_pos [OF pos] by simp
  define k where "k = Tw - 1 - i"
  define l where "l = Th - 1 - j"
  have Tw: "Tw = i + 1 + k" and Th: "Th = j + 1 + l"
    using i j by (simp_all add: k_def l_def)
  have "fst (source_point Sw Sh Tw Th i j) + fst (source_point Sw Sh Tw Th k j) = of_nat Sw"
    using s unfolding Tw
    by (simp add: source_point_def crop_offset_def scaled_size_def field_simps)
  then show "fst (source_point Sw Sh Tw Th i j) + fst (source_point Sw Sh Tw Th (Tw - 1 - i) j) = of_nat Sw"
    by (simp only: k_def)
  have "snd (source_point Sw Sh Tw Th i j) + snd (source_point Sw Sh Tw Th i l) = of_nat Sh"
    using s unfolding Th
    by (simp add: source_point_def crop_offset_def scaled_size_def field_simps)
  then show "snd (source_point Sw Sh Tw Th i j) + snd (source_point Sw Sh Tw Th i (Th - 1 - j)) = of_nat Sh"
    by (simp only: l_def)
qed

lemma source_window_centred:
  assumes pos: "0 < Sw" "0 < Sh" "0 < Tw" "0 < Th"
  shows "0 \<le> fst (fst (source_window Sw Sh Tw Th))" "0 \<le> snd (fst (source_window Sw Sh Tw Th))"
    "2 * fst (fst (source_window Sw Sh Tw Th)) + fst (snd (source_window Sw Sh Tw Th)) = of_nat Sw"
    "2 * snd (fst (source_window Sw Sh Tw Th)) + snd (snd (source_window Sw Sh Tw Th)) = of_nat Sh"
    "fst (snd (source_window Sw Sh Tw Th)) * of_nat Th = snd (snd (source_window Sw Sh Tw Th)) * of_nat Tw"
proof -
  let ?s = "cover_scale Sw Sh Tw Th"
  have s: "0 < ?s" using pos by (rule cover_scale_pos)
  have cl: "0 \<le> fst (crop_offset Sw Sh Tw Th)" and ct: "0 \<le> snd (crop_offset Sw Sh Tw Th)"
    using scaled_size_covers(1) [OF pos(1,2)] scaled_size_covers(2) [OF pos(1,2)]
    by (simp_all add: crop_offset_def)
  show "0 \<le> fst (fst (source_window Sw Sh Tw Th))" "0 \<le> snd (fst (source_window Sw Sh Tw Th))"
    using s cl ct by (simp_all add: source_window_def)
  show "2 * fst (fst (source_window Sw Sh Tw Th)) + fst (snd (source_window Sw Sh Tw Th)) = of_nat Sw"
    "2 * snd (fst (source_window Sw Sh Tw Th)) + snd (snd (source_window Sw Sh Tw Th)) = of_nat Sh"
    using s by (simp_all add: source_window_def crop_offset_def scaled_size_def field_simps)
  show "fst (snd (source_window Sw Sh Tw Th)) * of_nat Th = snd (snd (source_window Sw Sh Tw Th)) * of_nat Tw"
    by (simp add: source_window_def)
qed

text \<open>
  C5. Both resizes of the Compositor (to the face slot and to the 1024 by 1024 square)
  are the call \<open>resize_toBuffer\<close>, whose image is \<open>sharp_resize\<close>. For every source of
  positive dimensions \<open>Sw \<times> Sh\<close> and every positive target \<open>Tw \<times> Th\<close>: the output is exactly
  \<open>Tw \<times> Th\<close>; the source is scaled on both axes by the one factor \<open>max (Tw/Sw) (Th/Sh)\<close>,
  so the aspect ratio is kept; the scaled image is at least as wide and as high as the
  target, so the target is filled; the crop has the same margin on the left as on the
  right and on the top as on the bottom; the part of the source that is kept lies
  inside the source, is centred in it and has the target's aspect ratio; and every
  output pixel is taken at a point inside the source, the points of mirrored pixels
  being mirror images about the centre of the source.
\<close>

theorem cover_center_resize_law:
  assumes pos: "0 < Sw" "0 < Sh" "0 < Tw" "0 < Th"
    and dims: "img_width img = Sw" "img_height img = Sh"
  shows "resize_toBuffer env (Encoded fmt img) Tw Th t =
           (Inr (Encoded (output_format None fmt) (sharp_resize env img Tw Th)),
            t @ [SharpResize Tw Th]) \<and>
         img_width (sharp_resize env img Tw Th) = Tw \<and>
         img_height (sharp_resize env img Tw Th) = Th \<and>
         cover_scale Sw Sh Tw Th = max (of_nat Tw / of_nat Sw) (of_nat Th / of_nat Sh) \<and>
         scaled_size Sw Sh Tw Th =
           (of_nat Sw * cover_scale Sw Sh Tw Th, of_nat Sh * cover_scale Sw Sh Tw Th) \<and>
         of_nat Tw \<le> fst (scaled_size Sw Sh Tw Th) \<and>
         of_nat Th \<le> snd (scaled_size Sw Sh Tw Th) \<and>
         0 \<le> fst (crop_offset Sw Sh Tw Th) \<and>
         0 \<le> snd (crop_offset Sw Sh Tw Th) \<and>
         2 * fst (crop_offset Sw Sh Tw Th) + of_nat Tw = fst (scaled_size Sw Sh Tw Th) \<and>
         2 * snd (crop_offset Sw Sh Tw Th) + of_nat Th = snd (scaled_size Sw Sh Tw Th) \<and>
         0 \<le> fst (fst (source_window Sw Sh Tw Th)) \<and>
         0 \<le> snd (fst (source_window Sw Sh Tw Th)) \<and>
         2 * fst (fst (source_window Sw Sh Tw Th)) + fst (snd (source_window Sw Sh Tw Th)) = of_nat Sw \<and>
         2 * snd (fst (source_window Sw Sh Tw Th)) + snd (snd (source_window Sw Sh Tw Th)) = of_nat Sh \<and>
         fst (snd (source_window Sw Sh Tw Th)) * of_nat Th =
           snd (snd (source_window Sw Sh Tw Th)) * of_nat Tw \<and>
         (\<forall>i j. i < Tw \<and> j < Th \<longrightarrow>
            img_pixel (sharp_resize env img Tw Th) i j =
              sample env img (fst (source_point Sw Sh Tw Th i j)) (snd (source_point Sw Sh Tw Th i j)) \<and>
            0 < fst (source_point Sw Sh Tw Th i j) \<and> fst (source_point Sw Sh Tw Th i j) < of_nat Sw \<and>
            0 < snd (source_point Sw Sh Tw Th i j) \<and> snd (source_point Sw Sh Tw Th i j) < of_nat Sh \<and>
            fst (source_point Sw Sh Tw Th i j) + fst (source_point Sw Sh Tw Th (Tw - 1 - i) j) = of_nat Sw \<and>
            snd (source_point Sw Sh Tw Th i j) + snd (source_point Sw Sh Tw Th i (Th - 1 - j)) = of_nat Sh)"
proof -
  have run: "resize_toBuffer env (Encoded fmt img) Tw Th t =
           (Inr (Encoded (output_format None fmt) (sharp_resize env img Tw Th)),
            t @ [SharpResize Tw Th])"
    by (simp add: resize_toBuffer_def sharp_decode_def io_defs)
  have size: "img_width (sharp_resize env img Tw Th) = Tw" "img_height (sharp_resize env img Tw Th) = Th"
    by (simp_all add: sharp_resize_def)
  have scale: "cover_scale Sw Sh Tw Th = max (of_nat Tw / of_nat Sw) (of_nat Th / of_nat Sh)"
    "scaled_size Sw Sh Tw Th =
           (of_nat Sw * cover_scale Sw Sh Tw Th, of_nat Sh * cover_scale Sw Sh Tw Th)"
    by (simp_all add: cover_scale_def scaled_size_def)
  note filled = scaled_size_covers(1) [OF pos(1,2), of Tw Th] scaled_size_covers(2) [OF pos(1,2), of Th Tw]
  have crop: "0 \<le> fst (crop_offset Sw Sh Tw Th)" "0 \<le> snd (crop_offset Sw Sh Tw Th)"
    using filled by (simp_all add: crop_offset_def)
  have half: "2 * ((a - b) / 2) + b = a" for a b :: rat
    by (simp add: field_simps)
  have centred: "2 * fst (crop_offset Sw Sh Tw Th) + of_nat Tw = fst (scaled_size Sw Sh Tw Th)"
    "2 * snd (crop_offset Sw Sh Tw Th) + of_nat Th = snd (scaled_size Sw Sh Tw Th)"
    by (simp_all only: crop_offset_def fst_conv snd_conv half)
  note window = source_window_centred [OF pos]
  have pixels: "\<forall>i j. i < Tw \<and> j < Th \<longrightarrow>
            img_pixel (sharp_resize env img Tw Th) i j =
              sample env img (fst (source_point Sw Sh Tw Th i j)) (snd (source_point Sw Sh Tw Th i j)) \<and>
            0 < fst (source_point Sw Sh Tw Th i j) \<and> fst (source_point Sw Sh Tw Th i j) < of_nat Sw \<and>
            0 < snd (source_point Sw Sh Tw Th i j) \<and> snd (source_point Sw Sh Tw Th i j) < of_nat Sh \<and>
            fst (source_point Sw Sh Tw Th i j) + fst (source_point Sw Sh Tw Th (Tw - 1 - i) j) = of_nat Sw \<and>
            snd (source_point Sw Sh Tw Th i j) + snd (source_point Sw Sh Tw Th i (Th - 1 - j)) = of_nat Sh"
  proof (intro allI impI, elim conjE)
    fix i j assume ij: "i < Tw" "j < Th"
    have "img_pixel (sharp_resize env img Tw Th) i j =
              sample env img (fst (source_point Sw Sh Tw Th i j)) (snd (source_point Sw Sh Tw Th i j))"
      by (simp add: sharp_resize_def dims)
    with source_point_inside [OF pos ij] source_point_mirror [OF pos ij]
    show "img_pixel (sharp_resize env img Tw Th) i j =
              sample env img (fst (source_point Sw Sh Tw Th i j)) (snd (source_point Sw Sh Tw Th i j)) \<and>
            0 < fst (source_point Sw Sh Tw Th i j) \<and> fst (source_point Sw Sh Tw Th i j) < of_nat Sw \<and>
            0 < snd (source_point Sw Sh Tw Th i j) \<and> snd (source_point Sw Sh Tw Th i j) < of_nat Sh \<and>
            fst (source_point Sw Sh Tw Th i j) + fst (source_point Sw Sh Tw Th (Tw - 1 - i) j) = of_nat Sw \<and>
            snd (source_point Sw Sh Tw Th i j) + snd (source_point Sw Sh Tw Th i (Th - 1 - j)) = of_nat Sh"
      by blast
  qed
  from run size scale filled crop centred window pixels show ?thesis by blast
qed

text \<open>
  The example of the specification: a source of 2000 by 1000 resized to 400 by 400 is
  scaled by 2/5 to 800 by 400 and loses 200 columns on each side; what is kept is the
  square of side 1000 that starts at column 500 of the source.
\<close>

theorem cover_center_resize_law_witness:
  "img_width (flat 2000 1000 5) = 2000 \<and> img_height (flat 2000 1000 5) = 1000 \<and>
   img_width (sharp_resize bare_env (flat 2000 1000 5) 400 400) = 400 \<and>
   img_height (sharp_resize bare_env (flat 2000 1000 5) 400 400) = 400 \<and>
   cover_scale 2000 1000 400 400 = 2 / 5 \<and>
   scaled_size 2000 1000 400 400 = (800, 400) \<and>
   crop_offset 2000 1000 400 400 = (200, 0) \<and>
   source_window 2000 1000 400 400 = ((500, 0), (1000, 1000)) \<and>
   source_point 2000 1000 400 400 0 0 = (2005 / 4, 5 / 4) \<and>
   source_point 2000 1000 400 400 399 399 = (5995 / 4, 3995 / 4)"
proof -
  have pos: "(0::nat) < 2000" "(0::nat) < 1000" "(0::nat) < 400" "(0::nat) < 400"
    by simp_all
  have dims: "img_width (flat 2000 1000 5) = 2000" "img_height (flat 2000 1000 5) = 1000"
    by (simp_all add: flat_def)
  note law = cover_center_resize_law [OF pos dims, of bare_env PNG "[]"]
  have scale: "cover_scale 2000 1000 400 400 = 2 / 5"
    using law by simp
  have scaled: "scaled_size 2000 1000 400 400 = (800, 400)"
    using law by (simp add: scale)
  have crop: "crop_offset 2000 1000 400 400 = (200, 0)"
    by (simp add: crop_offset_def scaled)
  have window: "source_window 2000 1000 400 400 = ((500, 0), (1000, 1000))"
    by (simp add: source_window_def crop scale)
  have points: "source_point 2000 1000 400 400 0 0 = (2005 / 4, 5 / 4)"
    "source_point 2000 1000 400 400 399 399 = (5995 / 4, 3995 / 4)"
    by (simp_all add: source_point_def crop scale)
  from law dims scale scaled crop window points show ?thesis by simp
qed

subsection \<open>The fallback path\<close>

text \<open>
  C1. The code departs from the claim. With the Registry entry \<open>template1\<close>, no asset, and
  a JPEG source of 2000 by 1000, the result is a success and its image is 1024 by 1024,
  but the bytes are JPEG, not PNG: the fallback chain ends in \<open>toBuffer()\<close> without
  \<open>.png()\<close>, so the output keeps the format of the source, while the data URI is labelled
  \<open>image/png\<close>.
\<close>

theorem fallback_keeps_source_format:
  "img_width (sharp_resize (serving_env (Encoded JPEG (flat 2000 1000 5)))
      (flat 2000 1000 5) 1024 1024) = 1024 \<and>
   img_height (sharp_resize (serving_env (Encoded JPEG (flat 2000 1000 5)))
      (flat 2000 1000 5) 1024 1024) = 1024 \<and>
   compositeOnTemplate (serving_env (Encoded JPEG (flat 2000 1000 5)))
      (request (Some ''template1'')) [] =
     (Inr \<lparr>base64Image = Data_uri ''image/png''
              (Encoded JPEG
                 (sharp_resize (serving_env (Encoded JPEG (flat 2000 1000 5)))
                    (flat 2000 1000 5) 1024 1024)),
           error = None\<rparr>,
      [FsAccess ''/app/public/templates/template1.png'',
       Fetch ''https://replicate.delivery/out'',
       ReadBody ''https://replicate.delivery/out'',
       SharpResize 1024 1024])"
  by (simp add: compositor_defs io_defs example_defs sharp_resize_def)

subsection \<open>Names that are not in the template table\<close>

lemma unknown_template_is_rejected:
  assumes "tname \<noteq> []" "tname \<noteq> ''template1''" "tname \<noteq> ''template2''"
    "tname \<notin> set object_prototype_keys"
  shows "compositeOnTemplate env \<lparr>aiGeneratedImageUrl = url, templateName = Some tname\<rparr> t =
     (Inr \<lparr>base64Image = Empty_string, error = Some (''Template '' @ tname @ '' not found'')\<rparr>, t)"
proof -
  from assms have "or_default (templateName \<lparr>aiGeneratedImageUrl = url, templateName = Some tname\<rparr>)
      ''template1'' = tname"
    by (simp add: or_default_def)
  moreover from assms have "\<not> truthy (TEMPLATES_get tname)"
    by (simp only: truthy_lookup) simp
  ultimately show ?thesis
    using composite_unknown [of "\<lparr>aiGeneratedImageUrl = url, templateName = Some tname\<rparr>" env t]
    by simp
qed

lemma registry_entries:
  "TEMPLATES_get k = Own c \<longleftrightarrow>
     (k = ''template1'' \<and> c = \<lparr>tpl_name = ''template1'',
         facePosition = \<lparr>pos_x = 300, pos_y = 150, pos_width = 400, pos_height = 400\<rparr>\<rparr>) \<or>
     (k = ''template2'' \<and> c = \<lparr>tpl_name = ''template2'',
         facePosition = \<lparr>pos_x = 250, pos_y = 100, pos_width = 500, pos_height = 500\<rparr>\<rparr>)"
  by (auto simp: TEMPLATES_get_def TEMPLATES_def)

text \<open>
  C3. The code departs from the claim. \<open>constructor\<close> is not a key of the Registry, but
  \<open>TEMPLATES['constructor']\<close> reads \<open>Object.prototype.constructor\<close>, which is truthy; the
  guard does not throw, and with no asset of that name the call goes through the
  fallback path and returns a success.
\<close>

theorem inherited_name_gets_fallback:
  "map_of TEMPLATES ''constructor'' = None \<and>
   compositeOnTemplate (serving_env (Encoded PNG (flat 512 512 9)))
      (request (Some ''constructor'')) [] =
     (Inr \<lparr>base64Image = Data_uri ''image/png''
              (Encoded PNG
                 (sharp_resize (serving_env (Encoded PNG (flat 512 512 9)))
                    (flat 512 512 9) 1024 1024)),
           error = None\<rparr>,
      [FsAccess ''/app/public/templates/constructor.png'',
       Fetch ''https://replicate.delivery/out'',
       ReadBody ''https://replicate.delivery/out'',
       SharpResize 1024 1024])"
  by (simp add: compositor_defs io_defs example_defs)

text \<open>
  C10. The code departs from the claim. The table has exactly the two entries, but the
  lookup of \<open>compositeOnTemplate\<close> does not fail for every other name: for \<open>toString\<close> the
  property read gives an inherited member, the guard is passed, and the call goes on to
  the existence check and the fetch instead of failing with the not-found message.
\<close>

theorem lookup_accepts_inherited_name:
  "map fst TEMPLATES = [''template1'', ''template2''] \<and>
   TEMPLATES_get ''toString'' = Inherited \<and>
   truthy (TEMPLATES_get ''toString'') \<and>
   compositeOnTemplate bare_env (request (Some ''toString'')) [] =
     (Inr \<lparr>base64Image = Empty_string, error = Some ''fetch failed''\<rparr>,
      [FsAccess ''/app/public/templates/toString.png'', Fetch ''https://replicate.delivery/out''])"
  by (simp add: compositor_defs io_defs example_defs)

subsection \<open>The error boundary\<close>













subsection \<open>The list of available templates\<close>

lemma getAvailableTemplates_never_rejects:
  "\<exists>names. getAvailableTemplates env t =
     (Inr names, t @ [FsReaddir (path_join [cwd env, ''public'', ''templates''])])"
  by (cases "fs_readdir env (path_join [cwd env, ''public'', ''templates''])")
     (simp_all add: getAvailableTemplates_def io_defs Let_def)

lemma getAvailableTemplates_unavailable:
  "fs_readdir env (path_join [cwd env, ''public'', ''templates'']) = Inl e \<Longrightarrow>
   getAvailableTemplates env t =
     (Inr [], t @ [FsReaddir (path_join [cwd env, ''public'', ''templates''])])"
  by (simp add: getAvailableTemplates_def io_defs Let_def)

lemma getAvailableTemplates_listing:
  "fs_readdir env (path_join [cwd env, ''public'', ''templates'']) = Inr files \<Longrightarrow>
   getAvailableTemplates env t =
     (Inr (map (\<lambda>file. js_replace file ''.png'' []) (filter (\<lambda>file. endsWith file ''.png'') files)),
      t @ [FsReaddir (path_join [cwd env, ''public'', ''templates''])])"
  by (simp add: getAvailableTemplates_def io_defs Let_def)

text \<open>
  Where \<open>.png\<close> occurs in a file name only as its suffix, the replacement does strip the
  suffix.
\<close>

lemma js_replace_only_suffix:
  assumes "\<forall>ys zs. name @ pat = ys @ pat @ zs \<longrightarrow> zs = []"
  shows "js_replace (name @ pat) pat [] = name"
  using assms
proof (induction name)
  case Nil
  then show ?case by (cases pat) simp_all
next
  case (Cons c name)
  have no_prefix: "\<not> prefix pat (c # name @ pat)"
  proof
    assume "prefix pat (c # name @ pat)"
    then obtain zs where zs: "c # name @ pat = pat @ zs" by (auto simp: prefix_def)
    with Cons.prems have "zs = []" by (metis append_Cons append_Nil)
    with zs have "length (c # name @ pat) = length pat" by simp
    then show False by simp
  qed
  have "\<forall>ys zs. name @ pat = ys @ pat @ zs \<longrightarrow> zs = []"
  proof (intro allI impI)
    fix ys zs assume "name @ pat = ys @ pat @ zs"
    then have "(c # name) @ pat = (c # ys) @ pat @ zs" by simp
    with Cons.prems show "zs = []" by blast
  qed
  with Cons.IH have "js_replace (name @ pat) pat [] = name" by blast
  with no_prefix show ?case by simp
qed

text \<open>
  C9. The code departs from the claim. \<open>getAvailableTemplates\<close> never rejects and gives the
  empty list when the directory cannot be read, but \<open>file.replace('.png', '')\<close> removes
  the first \<open>.png\<close> of the name, not the suffix: for the file \<open>forest.png.old.png\<close> it
  gives \<open>forest.old.png\<close>, which is not the name under which the asset can be loaded
  (\<open>forest.png.old\<close>).
\<close>

theorem available_templates_removes_first_occurrence:
  "getAvailableTemplates listing_env [] =
     (Inr [''template1'', ''forest.old.png''], [FsReaddir ''/app/public/templates''])"
  by (simp add: getAvailableTemplates_def endsWith_def suffix_to_prefix io_defs example_defs Let_def)

end
